theory Spec2Isabelle
  imports Main "HOL-Library.FSet"
begin

section \<open>The recurrence form field of django-recurrence\<close>

text \<open>
  A shallow embedding of \<^verbatim>\<open>RecurrenceField\<close> from \<^verbatim>\<open>src/recurrence/forms.py\<close>:
  its class attribute \<^verbatim>\<open>default_error_messages\<close>, its constructor and its method
  \<^verbatim>\<open>clean\<close>. The widget class renders markup and is not modelled.
\<close>

subsection \<open>Data model\<close>

text \<open>
  Modelled from the spec: the frequency constants \<^verbatim>\<open>recurrence.YEARLY\<close> ...
  \<^verbatim>\<open>recurrence.SECONDLY\<close> are declared in the \<^verbatim>\<open>recurrence\<close> package, which the
  source imports; the spec (section 3) gives the frequency of a rule as an enumeration of
  these seven values.
\<close>

datatype frequency = YEARLY | MONTHLY | WEEKLY | DAILY | HOURLY | MINUTELY | SECONDLY

text \<open>
  Modelled from the spec: timestamps are opaque points on one calendar (section 1); the
  classes of a rule and of a recurrence are declared in the \<^verbatim>\<open>recurrence\<close> package.
  A rule has a frequency, an interval and an optional bound (section 3); \<^verbatim>\<open>clean\<close>
  reads a rule's attribute \<^verbatim>\<open>freq\<close> only. A recurrence has two optional anchors, two
  ordered sequences of rules and two sets of dates.
\<close>

type_synonym timestamp = int

record Rule =
  freq :: frequency
  interval :: int
  count :: "int option"
  until :: "timestamp option"

record Recurrence =
  dtstart :: "timestamp option"
  dtend :: "timestamp option"
  rrules :: "Rule list"
  exrules :: "Rule list"
  rdates :: "timestamp fset"
  exdates :: "timestamp fset"

text \<open>
  The attributes that \<^verbatim>\<open>RecurrenceField.__init__\<close> sets, and \<^verbatim>\<open>error_messages\<close>,
  which the constructor of the base class sets. A maximum is a Python integer or
  \<^verbatim>\<open>None\<close>; \<^verbatim>\<open>frequencies\<close> is a sequence.
\<close>

record RecurrenceField =
  accept_dtstart :: bool
  accept_dtend :: bool
  max_rrules :: "int option"
  max_exrules :: "int option"
  max_rdates :: "int option"
  max_exdates :: "int option"
  frequencies :: "frequency list"
  error_messages :: "string \<rightharpoonup> string"

subsection \<open>Errors\<close>

text \<open>
  The argument of a \<^verbatim>\<open>forms.ValidationError\<close> is either an entry of
  \<^verbatim>\<open>error_messages\<close> as it is, or the Python expression
  \<^verbatim>\<open>template % {'limit': n}\<close>, kept here as its two operands.
\<close>

datatype message = Plain string | Percent string "(string \<times> int) list"

text \<open>
  What \<^verbatim>\<open>clean\<close> can raise. \<open>ValidationError k msg\<close> is the
  \<^verbatim>\<open>forms.ValidationError\<close> of the raise statement that reads
  \<^verbatim>\<open>self.error_messages[k]\<close>, with the message \<open>msg\<close>; \<open>KeyError k\<close> is the
  failure of that dictionary lookup; \<open>DeserializationError\<close> is whatever
  \<^verbatim>\<open>recurrence.deserialize\<close> raises, which \<^verbatim>\<open>clean\<close> does not catch (the spec calls
  it \<^verbatim>\<open>FormatError{line, reason}\<close>).
\<close>

datatype error =
    ValidationError string message
  | KeyError string
  | DeserializationError nat string

subsection \<open>Construction\<close>

definition default_error_messages :: "string \<rightharpoonup> string" where
  "default_error_messages =
     [''invalid_freqency'' \<mapsto> ''Invalid frequency.'',
      ''max_rrules_exceeded'' \<mapsto> ''Max rules exceeded. The limit is %(limit)s'',
      ''max_exrules_exceeded'' \<mapsto> ''Max exclusion rules exceeded. The limit is %(limit)s'',
      ''max_rdates_exceeded'' \<mapsto> ''Max dates exceeded. The limit is %(limit)s'',
      ''max_exdates_exceeded'' \<mapsto> ''Max exclusion dates exceeded. The limit is %(limit)s'']"

text \<open>
  \<^verbatim>\<open>RecurrenceField.__init__\<close>. The keyword arguments keep their order; an argument
  the caller leaves out has the default of the signature (\<^verbatim>\<open>None\<close>, \<^verbatim>\<open>True\<close>).
  The call of the base class's constructor builds \<^verbatim>\<open>error_messages\<close>: the
  \<^verbatim>\<open>default_error_messages\<close> of the base classes (\<open>inherited\<close>, a parameter: the base
  classes belong to Django), updated with those of this class, updated with the
  \<^verbatim>\<open>error_messages\<close> argument of the caller if there is one.
\<close>

definition RecurrenceField_init ::
  "frequency list option \<Rightarrow> bool \<Rightarrow> bool \<Rightarrow> int option \<Rightarrow> int option \<Rightarrow> int option \<Rightarrow>
   int option \<Rightarrow> (string \<rightharpoonup> string) \<Rightarrow> (string \<rightharpoonup> string) option \<Rightarrow> RecurrenceField" where
  "RecurrenceField_init freqs acc_dtstart acc_dtend mx_rrules mx_exrules mx_rdates mx_exdates
       inherited supplied =
     \<lparr>accept_dtstart = acc_dtstart,
      accept_dtend = acc_dtend,
      max_rrules = mx_rrules,
      max_exrules = mx_exrules,
      max_rdates = mx_rdates,
      max_exdates = mx_exdates,
      frequencies = (case freqs of
                       Some fs \<Rightarrow> fs
                     | None \<Rightarrow> [YEARLY, MONTHLY, WEEKLY, DAILY, HOURLY, MINUTELY, SECONDLY]),
      error_messages = (inherited ++ default_error_messages)
                         ++ (case supplied of None \<Rightarrow> Map.empty | Some d \<Rightarrow> d)\<rparr>"

subsection \<open>The store of recurrence objects\<close>

text \<open>
  \<^verbatim>\<open>clean\<close> assigns to attributes of an object, so objects live in a store and are
  named by their address: the store is the list of the objects created so far, and an
  address is a position in it.
\<close>

type_synonym addr = nat
type_synonym store = "Recurrence list"

text \<open>
  Modelled from the spec: \<^verbatim>\<open>recurrence.deserialize\<close> is a function of the
  \<^verbatim>\<open>recurrence\<close> package. Its reading of the text is the parameter \<open>parse\<close>; by the
  spec (section 3, lifecycle) a model is created by the parser and shared with no other
  call, so a successful call puts a new object in the store and returns its address.
\<close>

definition deserialize ::
  "(string \<Rightarrow> (nat \<times> string) + Recurrence) \<Rightarrow> string \<Rightarrow> store \<Rightarrow> (error + addr) \<times> store" where
  "deserialize parse v s =
     (case parse v of
        Inl (line, reason) \<Rightarrow> (Inl (DeserializationError line reason), s)
      | Inr m \<Rightarrow> (Inr (length s), s @ [m]))"

subsection \<open>Validation\<close>

text \<open>
  The argument of the raise statements of lines 140 to 157: the entry \<open>k\<close> of
  \<^verbatim>\<open>error_messages\<close>, formatted with the limit.
\<close>

definition limit_error :: "RecurrenceField \<Rightarrow> string \<Rightarrow> int \<Rightarrow> error" where
  "limit_error self k limit =
     (case error_messages self k of
        None \<Rightarrow> KeyError k
      | Some template \<Rightarrow> ValidationError k (Percent template [(''limit'', limit)]))"

text \<open>The raise statements of lines 161 and 165.\<close>

definition frequency_error :: "RecurrenceField \<Rightarrow> error" where
  "frequency_error self =
     (case error_messages self ''invalid_frequency'' of
        None \<Rightarrow> KeyError ''invalid_frequency''
      | Some text \<Rightarrow> ValidationError ''invalid_frequency'' (Plain text))"

text \<open>
  One of the four blocks of lines 138 to 157: nothing happens when the maximum is
  \<^verbatim>\<open>None\<close> or the length does not exceed it.
\<close>

definition check_max :: "RecurrenceField \<Rightarrow> string \<Rightarrow> int option \<Rightarrow> nat \<Rightarrow> error option" where
  "check_max self k mx len =
     (case mx of
        None \<Rightarrow> None
      | Some limit \<Rightarrow> if int len > limit then Some (limit_error self k limit) else None)"

text \<open>One of the two \<^verbatim>\<open>for\<close> statements of lines 159 to 166.\<close>

fun check_frequencies :: "RecurrenceField \<Rightarrow> Rule list \<Rightarrow> error option" where
  "check_frequencies self [] = None"
| "check_frequencies self (rule # rules) =
     (if freq rule \<notin> set (frequencies self) then Some (frequency_error self)
      else check_frequencies self rules)"

text \<open>
  \<^verbatim>\<open>RecurrenceField.clean\<close>: the outcome (the error raised, or the address of the
  object returned) and the store after the call.
\<close>

definition clean ::
  "RecurrenceField \<Rightarrow> (string \<Rightarrow> (nat \<times> string) + Recurrence) \<Rightarrow> string \<Rightarrow> store \<Rightarrow>
   (error + addr) \<times> store" where
  "clean self parse v s =
     (case deserialize parse v s of
        (Inl e, s1) \<Rightarrow> (Inl e, s1)
      | (Inr obj, s1) \<Rightarrow>
          let s2 = (if \<not> accept_dtstart self then s1[obj := (s1 ! obj)\<lparr>dtstart := None\<rparr>] else s1);
              s3 = (if \<not> accept_dtend self then s2[obj := (s2 ! obj)\<lparr>dtend := None\<rparr>] else s2)
          in
          (case check_max self ''max_rrules_exceeded'' (max_rrules self)
                  (length (rrules (s3 ! obj))) of
             Some e \<Rightarrow> (Inl e, s3)
           | None \<Rightarrow>
          (case check_max self ''max_exrules_exceeded'' (max_exrules self)
                  (length (exrules (s3 ! obj))) of
             Some e \<Rightarrow> (Inl e, s3)
           | None \<Rightarrow>
          (case check_max self ''max_rdates_exceeded'' (max_rdates self)
                  (fcard (rdates (s3 ! obj))) of
             Some e \<Rightarrow> (Inl e, s3)
           | None \<Rightarrow>
          (case check_max self ''max_exdates_exceeded'' (max_exdates self)
                  (fcard (exdates (s3 ! obj))) of
             Some e \<Rightarrow> (Inl e, s3)
           | None \<Rightarrow>
          (case check_frequencies self (rrules (s3 ! obj)) of
             Some e \<Rightarrow> (Inl e, s3)
           | None \<Rightarrow>
          (case check_frequencies self (exrules (s3 ! obj)) of
             Some e \<Rightarrow> (Inl e, s3)
           | None \<Rightarrow> (Inr obj, s3))))))))"

subsection \<open>Vocabulary of the statements\<close>

text \<open>
  The object that \<^verbatim>\<open>clean\<close> holds after lines 133 to 136: each anchor is kept when
  the field accepts it and is \<^verbatim>\<open>None\<close> otherwise.
\<close>

definition clear_anchors :: "RecurrenceField \<Rightarrow> Recurrence \<Rightarrow> Recurrence" where
  "clear_anchors self m =
     m\<lparr>dtstart := (if accept_dtstart self then dtstart m else None),
       dtend := (if accept_dtend self then dtend m else None)\<rparr>"

text \<open>A collection of \<open>len\<close> elements exceeds the maximum \<open>mx\<close>, if one is set.\<close>

definition exceeds :: "int option \<Rightarrow> nat \<Rightarrow> bool" where
  "exceeds mx len = (case mx of None \<Rightarrow> False | Some limit \<Rightarrow> limit < int len)"

text \<open>Some rule of the list has a frequency outside \<^verbatim>\<open>self.frequencies\<close>.\<close>

definition disallowed :: "RecurrenceField \<Rightarrow> Rule list \<Rightarrow> bool" where
  "disallowed self rules = list_ex (\<lambda>rule. freq rule \<notin> set (frequencies self)) rules"

text \<open>
  The checks of the spec (section 4.2, steps 2 and 3), each taken alone: the error of a
  collection over its maximum, and one error for each rule with a frequency that is not
  allowed. \<open>violations\<close> lists the errors of all violated checks in the order of the
  spec: rrules, exrules, rdates, exdates, then the rules of rrules, then those of exrules.
\<close>

definition limit_violation :: "RecurrenceField \<Rightarrow> string \<Rightarrow> int option \<Rightarrow> nat \<Rightarrow> error list" where
  "limit_violation self k mx len =
     (case mx of
        None \<Rightarrow> []
      | Some limit \<Rightarrow> if limit < int len then [limit_error self k limit] else [])"

definition frequency_violations :: "RecurrenceField \<Rightarrow> Rule list \<Rightarrow> error list" where
  "frequency_violations self rules =
     map (\<lambda>rule. frequency_error self)
       (filter (\<lambda>rule. freq rule \<notin> set (frequencies self)) rules)"

definition violations :: "RecurrenceField \<Rightarrow> Recurrence \<Rightarrow> error list" where
  "violations self m =
     limit_violation self ''max_rrules_exceeded'' (max_rrules self) (length (rrules m))
     @ limit_violation self ''max_exrules_exceeded'' (max_exrules self) (length (exrules m))
     @ limit_violation self ''max_rdates_exceeded'' (max_rdates self) (fcard (rdates m))
     @ limit_violation self ''max_exdates_exceeded'' (max_exdates self) (fcard (exdates m))
     @ frequency_violations self (rrules m)
     @ frequency_violations self (exrules m)"

fun first_error :: "error list \<Rightarrow> error option" where
  "first_error [] = None"
| "first_error (e # es) = Some e"

text \<open>The outcome that reports the first of the errors, or returns \<open>a\<close> when there is none.\<close>

definition first_of :: "error list \<Rightarrow> addr \<Rightarrow> error + addr" where
  "first_of es a = (case es of [] \<Rightarrow> Inr a | e # _ \<Rightarrow> Inl e)"

text \<open>
  The entry of \<^verbatim>\<open>error_messages\<close> that the raise statement of an error reads, and
  outcomes by the raise statement that produced them. \<open>limit_exceeded self k n r\<close>: the
  outcome \<open>r\<close> is the \<^verbatim>\<open>ValidationError\<close> of the entry \<open>k\<close> with the limit \<open>n\<close>, the
  \<^verbatim>\<open>LimitExceeded{collection, limit}\<close> of the spec.
\<close>

fun error_key :: "error \<Rightarrow> string option" where
  "error_key (ValidationError k msg) = Some k"
| "error_key (KeyError k) = Some k"
| "error_key (DeserializationError line reason) = None"

definition raised_from :: "string \<Rightarrow> error + addr \<Rightarrow> bool" where
  "raised_from k r = (case r of Inl e \<Rightarrow> error_key e = Some k | Inr a \<Rightarrow> False)"

definition limit_exceeded :: "RecurrenceField \<Rightarrow> string \<Rightarrow> int \<Rightarrow> error + addr \<Rightarrow> bool" where
  "limit_exceeded self k n r =
     (case error_messages self k of
        None \<Rightarrow> False
      | Some t \<Rightarrow> r = Inl (ValidationError k (Percent t [(''limit'', n)])))"


subsection \<open>Inputs of the examples\<close>

text \<open>
  A rule of a given frequency, a recurrence with given rules and dates, and a parser
  that knows the texts of a table and rejects every other text.
\<close>

definition rule_of :: "frequency \<Rightarrow> Rule" where
  "rule_of f = \<lparr>freq = f, interval = 1, count = None, until = None\<rparr>"

definition model_of ::
  "frequency list \<Rightarrow> frequency list \<Rightarrow> timestamp fset \<Rightarrow> timestamp fset \<Rightarrow> Recurrence" where
  "model_of rs exs rds exds =
     \<lparr>dtstart = Some 20240101, dtend = Some 20240131,
      rrules = map rule_of rs, exrules = map rule_of exs, rdates = rds, exdates = exds\<rparr>"

definition table_parser ::
  "(string \<times> Recurrence) list \<Rightarrow> string \<Rightarrow> (nat \<times> string) + Recurrence" where
  "table_parser table v =
     (case map_of table v of None \<Rightarrow> Inl (1, ''unknown directive'') | Some m \<Rightarrow> Inr m)"

section \<open>Properties\<close>

subsection \<open>What clean computes\<close>

lemmas eval_defs = clean_def deserialize_def table_parser_def check_max_def limit_error_def
  frequency_error_def RecurrenceField_init_def default_error_messages_def rule_of_def
  model_of_def limit_exceeded_def raised_from_def exceeds_def clear_anchors_def
  fcard_finsert_if

lemma first_error_append:
  "first_error (xs @ ys) = (case first_error xs of Some e \<Rightarrow> Some e | None \<Rightarrow> first_error ys)"
  by (cases xs) simp_all

lemma check_max_first: "check_max self k mx len = first_error (limit_violation self k mx len)"
  by (simp add: check_max_def limit_violation_def split: option.split)

lemma check_frequencies_first:
  "check_frequencies self rules = first_error (frequency_violations self rules)"
  by (induction rules) (simp_all add: frequency_violations_def)

lemma first_of_first_error:
  "first_of es a = (case first_error es of Some e \<Rightarrow> Inl e | None \<Rightarrow> Inr a)"
  by (cases es) (simp_all add: first_of_def)

lemma clear_anchors_fields [simp]:
  "rrules (clear_anchors self m) = rrules m"
  "exrules (clear_anchors self m) = exrules m"
  "rdates (clear_anchors self m) = rdates m"
  "exdates (clear_anchors self m) = exdates m"
  "dtstart (clear_anchors self m) = (if accept_dtstart self then dtstart m else None)"
  "dtend (clear_anchors self m) = (if accept_dtend self then dtend m else None)"
  by (simp_all add: clear_anchors_def)

text \<open>
  On a text that parses, \<^verbatim>\<open>clean\<close> stores the parsed object with its anchors cleared
  and reports the first violation, if there is one.
\<close>

lemma clean_parsed:
  assumes "parse v = Inr m"
  shows "clean self parse v s =
           (first_of (violations self m) (length s), s @ [clear_anchors self m])"
proof -
  have d: "deserialize parse v s = (Inr (length s), s @ [m])"
    using assms by (simp add: deserialize_def)
  show ?thesis
  proof (cases "accept_dtstart self"; cases "accept_dtend self")
  qed (simp_all add: clean_def d clear_anchors_def first_of_first_error violations_def
        first_error_append check_max_first check_frequencies_first
        split: option.split)
qed

lemma clean_unparsed:
  "parse v = Inl (line, reason) \<Longrightarrow>
   clean self parse v s = (Inl (DeserializationError line reason), s)"
  by (simp add: clean_def deserialize_def)

lemma error_key_limit_error [simp]: "error_key (limit_error self k n) = Some k"
  by (simp add: limit_error_def split: option.split)

lemma error_key_frequency_error [simp]:
  "error_key (frequency_error self) = Some ''invalid_frequency''"
  by (simp add: frequency_error_def split: option.split)

lemma first_error_limit:
  "first_error (limit_violation self k mx len) =
     (if exceeds mx len then Some (limit_error self k (the mx)) else None)"
  by (simp add: limit_violation_def exceeds_def split: option.split)

lemma first_error_frequency:
  "first_error (frequency_violations self rules) =
     (if disallowed self rules then Some (frequency_error self) else None)"
  by (induction rules) (simp_all add: frequency_violations_def disallowed_def)

lemma clean_result:
  assumes "parse v = Inr m"
  shows "fst (clean self parse v s) =
    (if exceeds (max_rrules self) (length (rrules m))
       then Inl (limit_error self ''max_rrules_exceeded'' (the (max_rrules self)))
     else if exceeds (max_exrules self) (length (exrules m))
       then Inl (limit_error self ''max_exrules_exceeded'' (the (max_exrules self)))
     else if exceeds (max_rdates self) (fcard (rdates m))
       then Inl (limit_error self ''max_rdates_exceeded'' (the (max_rdates self)))
     else if exceeds (max_exdates self) (fcard (exdates m))
       then Inl (limit_error self ''max_exdates_exceeded'' (the (max_exdates self)))
     else if disallowed self (rrules m) \<or> disallowed self (exrules m)
       then Inl (frequency_error self)
     else Inr (length s))"
  using assms
  by (simp add: clean_parsed [of parse v m] first_of_first_error violations_def
      first_error_append first_error_limit first_error_frequency)

lemma raised_from_simps [simp]:
  "raised_from k (Inl e) = (error_key e = Some k)"
  "raised_from k (Inr a) = False"
  by (simp_all add: raised_from_def)

lemma limit_exceeded_simps [simp]:
  "limit_exceeded self k n (Inl (limit_error self k' n')) \<longleftrightarrow>
     k = k' \<and> n = n' \<and> k \<in> dom (error_messages self)"
  "limit_exceeded self k n (Inl (frequency_error self)) = False"
  "limit_exceeded self k n (Inr a) = False"
  by (auto simp add: limit_exceeded_def limit_error_def frequency_error_def split: option.splits)


lemma disallowed_iff:
  "disallowed self rules \<longleftrightarrow> (\<exists>rule \<in> set rules. freq rule \<notin> set (frequencies self))"
  by (simp add: disallowed_def list_ex_iff)

text \<open>The frequencies of a field constructed without \<^verbatim>\<open>frequencies\<close> allow every rule.\<close>

lemma default_frequencies_allow:
  "\<not> disallowed (RecurrenceField_init None a b mr mer mrd med inh cus) rules"
proof -
  have "freq rule \<in> set [YEARLY, MONTHLY, WEEKLY, DAILY, HOURLY, MINUTELY, SECONDLY]"
    for rule :: Rule
    by (cases "freq rule") simp_all
  then show ?thesis
    by (simp add: disallowed_def list_ex_iff RecurrenceField_init_def del: set_simps)
qed

subsection \<open>Collection limits\<close>




text \<open>
  Claim C6. A maximum of \<^verbatim>\<open>None\<close> is no limit: whatever the field, the text and the
  sizes of the collections, \<^verbatim>\<open>clean\<close> never fails at the raise statement of a
  collection whose maximum is \<^verbatim>\<open>None\<close>, neither with its \<^verbatim>\<open>ValidationError\<close> nor
  with a failed lookup of its message.
\<close>

theorem unset_max_never_exceeded:
  "(max_rrules self = None \<longrightarrow>
      \<not> raised_from ''max_rrules_exceeded'' (fst (clean self parse v s))) \<and>
   (max_exrules self = None \<longrightarrow>
      \<not> raised_from ''max_exrules_exceeded'' (fst (clean self parse v s))) \<and>
   (max_rdates self = None \<longrightarrow>
      \<not> raised_from ''max_rdates_exceeded'' (fst (clean self parse v s))) \<and>
   (max_exdates self = None \<longrightarrow>
      \<not> raised_from ''max_exdates_exceeded'' (fst (clean self parse v s)))"
proof (cases "parse v")
  case (Inl a)
  then obtain line reason where "parse v = Inl (line, reason)" by (cases a) simp
  then show ?thesis by (simp add: clean_unparsed)
next
  case (Inr m)
  then show ?thesis
    by (simp add: clean_result [of parse v m] exceeds_def)
qed

text \<open>
  A field without limits accepts five rrules.
\<close>

theorem unset_max_never_exceeded_witness:
  "max_rrules (RecurrenceField_init None True True None None None None Map.empty None) = None
   \<and> fst (clean (RecurrenceField_init None True True None None None None Map.empty None)
        (table_parser
          [(''many'', model_of [DAILY, DAILY, WEEKLY, MONTHLY, YEARLY] [] {||} {||})]) ''many'' [])
     = Inr 0
   \<and> \<not> raised_from ''max_rrules_exceeded''
        (fst (clean (RecurrenceField_init None True True None None None None Map.empty None)
          (table_parser
            [(''many'', model_of [DAILY, DAILY, WEEKLY, MONTHLY, YEARLY] [] {||} {||})])
          ''many'' []))"
proof -
  let ?f = "RecurrenceField_init None True True None None None None Map.empty None"
  let ?p = "table_parser
          [(''many'', model_of [DAILY, DAILY, WEEKLY, MONTHLY, YEARLY] [] {||} {||})]"
  have n: "max_rrules ?f = None" by (simp add: RecurrenceField_init_def)
  have c: "fst (clean ?f ?p ''many'' []) = Inr 0" by (simp add: eval_defs)
  from unset_max_never_exceeded [of ?f ?p "''many''" "[]"] n
  have "\<not> raised_from ''max_rrules_exceeded'' (fst (clean ?f ?p ''many'' []))" by blast
  with n c show ?thesis by blast
qed




subsection \<open>Order of the checks\<close>

text \<open>
  Claim C2. On a text that parses, \<^verbatim>\<open>clean\<close> first clears the anchors: the stored
  object has them cleared whether the checks pass or not. Then it returns the object if
  no check is violated, and otherwise fails with the error of the earliest violated
  check in the order of \<open>violations\<close>: the limits of rrules, exrules, rdates and
  exdates, then the frequency of every rule of rrules, then of every rule of exrules.
\<close>

theorem clean_reports_first_violation:
  assumes "parse v = Inr m"
  shows "snd (clean self parse v s) = s @ [clear_anchors self m] \<and>
         (violations self m = [] \<longrightarrow> fst (clean self parse v s) = Inr (length s)) \<and>
         (\<forall>e es. violations self m = e # es \<longrightarrow> fst (clean self parse v s) = Inl e)"
  using assms by (simp add: clean_parsed [of parse v m] first_of_def)

text \<open>
  A model that violates four checks: too many rrules, too many exdates and two rules of
  a frequency that is not allowed. The error is the one of rrules, and \<^verbatim>\<open>dtstart\<close>
  has been cleared.
\<close>

theorem clean_reports_first_violation_witness:
  "table_parser [(''several'', model_of [MONTHLY, DAILY] [] {||} {|20240105|})] ''several''
     = Inr (model_of [MONTHLY, DAILY] [] {||} {|20240105|})
   \<and> violations
        (RecurrenceField_init (Some [WEEKLY]) False True (Some 1) None None (Some 0) Map.empty None)
        (model_of [MONTHLY, DAILY] [] {||} {|20240105|})
     = [ValidationError ''max_rrules_exceeded''
          (Percent ''Max rules exceeded. The limit is %(limit)s'' [(''limit'', 1)]),
        ValidationError ''max_exdates_exceeded''
          (Percent ''Max exclusion dates exceeded. The limit is %(limit)s'' [(''limit'', 0)]),
        KeyError ''invalid_frequency'', KeyError ''invalid_frequency'']
   \<and> clean
        (RecurrenceField_init (Some [WEEKLY]) False True (Some 1) None None (Some 0) Map.empty None)
        (table_parser [(''several'', model_of [MONTHLY, DAILY] [] {||} {|20240105|})])
        ''several'' []
     = (Inl (ValidationError ''max_rrules_exceeded''
               (Percent ''Max rules exceeded. The limit is %(limit)s'' [(''limit'', 1)])),
        [(model_of [MONTHLY, DAILY] [] {||} {|20240105|})\<lparr>dtstart := None\<rparr>])"
proof -
  let ?m = "model_of [MONTHLY, DAILY] [] {||} {|20240105|}"
  let ?f = "RecurrenceField_init (Some [WEEKLY]) False True (Some 1) None None (Some 0) Map.empty None"
  let ?p = "table_parser [(''several'', ?m)]"
  have p: "?p ''several'' = Inr ?m" by (simp add: table_parser_def)
  have vs: "violations ?f ?m
     = [ValidationError ''max_rrules_exceeded''
          (Percent ''Max rules exceeded. The limit is %(limit)s'' [(''limit'', 1)]),
        ValidationError ''max_exdates_exceeded''
          (Percent ''Max exclusion dates exceeded. The limit is %(limit)s'' [(''limit'', 0)]),
        KeyError ''invalid_frequency'', KeyError ''invalid_frequency'']"
    by (simp add: violations_def limit_violation_def frequency_violations_def eval_defs)
  have c: "clear_anchors ?f ?m = ?m\<lparr>dtstart := None\<rparr>"
    by (simp add: clear_anchors_def RecurrenceField_init_def)
  from clean_reports_first_violation [of ?p "''several''" ?m ?f "[]", OF p] vs c
  have "snd (clean ?f ?p ''several'' []) = [?m\<lparr>dtstart := None\<rparr>]"
    and "fst (clean ?f ?p ''several'' []) = Inl (ValidationError ''max_rrules_exceeded''
          (Percent ''Max rules exceeded. The limit is %(limit)s'' [(''limit'', 1)]))"
    by simp_all
  then have "clean ?f ?p ''several'' [] = (Inl (ValidationError ''max_rrules_exceeded''
          (Percent ''Max rules exceeded. The limit is %(limit)s'' [(''limit'', 1)])),
        [?m\<lparr>dtstart := None\<rparr>])"
    by (simp add: prod_eq_iff)
  with p vs show ?thesis by simp
qed

subsection \<open>The returned object\<close>

text \<open>
  Claim C3. When \<^verbatim>\<open>clean\<close> succeeds, the returned object has no \<^verbatim>\<open>dtstart\<close> if
  \<^verbatim>\<open>accept_dtstart\<close> is false and no \<^verbatim>\<open>dtend\<close> if \<^verbatim>\<open>accept_dtend\<close> is false;
  an accepted anchor and the four collections are those of the parsed object.
\<close>

theorem clean_frame:
  assumes "parse v = Inr m" and "clean self parse v s = (Inr a, s')"
  shows "(\<not> accept_dtstart self \<longrightarrow> dtstart (s' ! a) = None) \<and>
         (\<not> accept_dtend self \<longrightarrow> dtend (s' ! a) = None) \<and>
         (accept_dtstart self \<longrightarrow> dtstart (s' ! a) = dtstart m) \<and>
         (accept_dtend self \<longrightarrow> dtend (s' ! a) = dtend m) \<and>
         rrules (s' ! a) = rrules m \<and> exrules (s' ! a) = exrules m \<and>
         rdates (s' ! a) = rdates m \<and> exdates (s' ! a) = exdates m"
proof -
  from assms have eq: "first_of (violations self m) (length s) = Inr a"
      and s': "s' = s @ [clear_anchors self m]"
    by (simp_all add: clean_parsed [of parse v m])
  from eq have "a = length s"
    by (simp add: first_of_def split: list.splits)
  with s' have "s' ! a = clear_anchors self m" by simp
  then show ?thesis by simp
qed

text \<open>
  A field that does not accept \<^verbatim>\<open>dtstart\<close>: the parsed object has one, the returned
  object has none, and nothing else differs.
\<close>

theorem clean_frame_witness:
  "table_parser [(''weekly'', model_of [WEEKLY] [DAILY] {|20240110|} {||})] ''weekly''
     = Inr (model_of [WEEKLY] [DAILY] {|20240110|} {||})
   \<and> clean (RecurrenceField_init None False True None None None None Map.empty None)
        (table_parser [(''weekly'', model_of [WEEKLY] [DAILY] {|20240110|} {||})]) ''weekly'' []
     = (Inr 0, [\<lparr>dtstart = None, dtend = Some 20240131, rrules = [rule_of WEEKLY],
                 exrules = [rule_of DAILY], rdates = {|20240110|}, exdates = {||}\<rparr>])
   \<and> dtstart (model_of [WEEKLY] [DAILY] {|20240110|} {||}) = Some 20240101"
proof -
  let ?m = "model_of [WEEKLY] [DAILY] {|20240110|} {||}"
  let ?f = "RecurrenceField_init None False True None None None None Map.empty None"
  let ?p = "table_parser [(''weekly'', ?m)]"
  let ?m' = "\<lparr>dtstart = None, dtend = Some 20240131, rrules = [rule_of WEEKLY],
                 exrules = [rule_of DAILY], rdates = {|20240110|}, exdates = {||}\<rparr>"
  have p: "?p ''weekly'' = Inr ?m" by (simp add: table_parser_def)
  have c: "clean ?f ?p ''weekly'' [] = (Inr 0, [?m'])"
    by (simp add: eval_defs)
  from clean_frame [OF p c] have "dtstart ([?m'] ! 0) = None" 
    by (simp add: RecurrenceField_init_def)
  with p c show ?thesis by (simp add: model_of_def)
qed

text \<open>
  Claim C5. Validation is atomic. Whatever the outcome, every object that was in the
  store before the call is unchanged: the only object that \<^verbatim>\<open>clean\<close> assigns to is
  the one it has just created. When \<^verbatim>\<open>clean\<close> returns, it returns the address of
  that object, which is the parsed object with both clears applied and violates no
  check. When it fails, the caller receives an error and no address: the error of the
  parser, with the store as it was, or the error of a violated check.
\<close>

theorem clean_atomic:
  "take (length s) (snd (clean self parse v s)) = s \<and>
   (case fst (clean self parse v s) of
      Inr a \<Rightarrow>
        (\<exists>m. parse v = Inr m \<and> a = length s
           \<and> snd (clean self parse v s) = s @ [clear_anchors self m]
           \<and> violations self m = [])
    | Inl e \<Rightarrow>
        (\<exists>line reason. parse v = Inl (line, reason) \<and> e = DeserializationError line reason
           \<and> snd (clean self parse v s) = s)
        \<or> (\<exists>m es. parse v = Inr m \<and> violations self m = e # es))"
proof (cases "parse v")
  case (Inl a)
  then obtain line reason where "parse v = Inl (line, reason)" by (cases a) simp
  then show ?thesis by (simp add: clean_unparsed)
next
  case (Inr m)
  then show ?thesis
    by (simp add: clean_parsed [of parse v m] first_of_def split: list.split)
qed

text \<open>
  A failing call in a store that holds one object: the caller gets the error, its
  object is unchanged, and the cleared object is out of its reach.
\<close>

theorem clean_atomic_witness:
  "clean (RecurrenceField_init (Some [WEEKLY]) False False None None None None Map.empty None)
     (table_parser [(''monthly'', model_of [MONTHLY] [] {||} {||})]) ''monthly''
     [model_of [WEEKLY] [] {||} {||}]
   = (Inl (KeyError ''invalid_frequency''),
      [model_of [WEEKLY] [] {||} {||},
       (model_of [MONTHLY] [] {||} {||})\<lparr>dtstart := None, dtend := None\<rparr>])
   \<and> take (length [model_of [WEEKLY] [] {||} {||}])
        (snd (clean
          (RecurrenceField_init (Some [WEEKLY]) False False None None None None Map.empty None)
          (table_parser [(''monthly'', model_of [MONTHLY] [] {||} {||})]) ''monthly''
          [model_of [WEEKLY] [] {||} {||}]))
     = [model_of [WEEKLY] [] {||} {||}]"
proof -
  let ?f = "RecurrenceField_init (Some [WEEKLY]) False False None None None None Map.empty None"
  let ?p = "table_parser [(''monthly'', model_of [MONTHLY] [] {||} {||})]"
  let ?s = "[model_of [WEEKLY] [] {||} {||}]"
  have c: "clean ?f ?p ''monthly'' ?s = (Inl (KeyError ''invalid_frequency''),
      [model_of [WEEKLY] [] {||} {||},
       (model_of [MONTHLY] [] {||} {||})\<lparr>dtstart := None, dtend := None\<rparr>])"
    by (simp add: eval_defs)
  from clean_atomic [of ?s ?f ?p "''monthly''"]
  have "take (length ?s) (snd (clean ?f ?p ''monthly'' ?s)) = ?s" by (rule conjunct1)
  with c show ?thesis by simp
qed

subsection \<open>Frequencies\<close>

text \<open>
  Claim C8. A field constructed without \<^verbatim>\<open>frequencies\<close> allows all seven: whatever
  the other arguments, the text and the rules, \<^verbatim>\<open>clean\<close> never fails at the raise
  statements of lines 161 and 165.
\<close>

theorem default_frequencies_never_rejected:
  "\<not> raised_from ''invalid_frequency''
       (fst (clean (RecurrenceField_init None acc_s acc_e mr mer mrd med inherited supplied)
               parse v s))"
proof (cases "parse v")
  case (Inl a)
  then obtain line reason where "parse v = Inl (line, reason)" by (cases a) simp
  then show ?thesis by (simp add: clean_unparsed)
next
  case (Inr m)
  then show ?thesis
    by (simp add: clean_result [of parse v m] default_frequencies_allow)
qed

text \<open>
  Rules of all seven frequencies pass the default field.
\<close>

theorem default_frequencies_never_rejected_witness:
  "fst (clean (RecurrenceField_init None True True None None None None Map.empty None)
     (table_parser
       [(''all'', model_of [YEARLY, MONTHLY, WEEKLY, DAILY] [HOURLY, MINUTELY, SECONDLY] {||} {||})])
     ''all'' []) = Inr 0
   \<and> \<not> raised_from ''invalid_frequency''
       (fst (clean (RecurrenceField_init None True True None None None None Map.empty None)
         (table_parser
           [(''all'',
             model_of [YEARLY, MONTHLY, WEEKLY, DAILY] [HOURLY, MINUTELY, SECONDLY] {||} {||})])
         ''all'' []))"
proof -
  let ?f = "RecurrenceField_init None True True None None None None Map.empty None"
  let ?p = "table_parser
       [(''all'', model_of [YEARLY, MONTHLY, WEEKLY, DAILY] [HOURLY, MINUTELY, SECONDLY] {||} {||})]"
  have c: "fst (clean ?f ?p ''all'' []) = Inr 0" by (simp add: eval_defs)
  from default_frequencies_never_rejected
    [of True True None None None None Map.empty None ?p "''all''" "[]"] c
  show ?thesis by blast
qed




text \<open>
  Claim C10, as amended. \<^verbatim>\<open>default_error_messages\<close> has the entry
  \<^verbatim>\<open>invalid_freqency\<close> and no entry \<^verbatim>\<open>invalid_frequency\<close>. So for a field
  constructed without an \<^verbatim>\<open>invalid_frequency\<close> message from the caller (and none
  inherited), a parsed model with a rule whose frequency is not allowed, and in which no
  collection exceeds its maximum, \<^verbatim>\<open>clean\<close> fails with the \<^verbatim>\<open>KeyError\<close> of the
  lookup, not with a \<^verbatim>\<open>ValidationError\<close>.
\<close>

theorem misspelled_key_raises_key_error:
  assumes "parse v = Inr m"
    and "self = RecurrenceField_init freqs acc_s acc_e mr mer mrd med inherited supplied"
    and "''invalid_frequency'' \<notin> dom inherited"
    and "\<forall>d. supplied = Some d \<longrightarrow> ''invalid_frequency'' \<notin> dom d"
    and "\<exists>rule \<in> set (rrules m) \<union> set (exrules m). freq rule \<notin> set (frequencies self)"
    and "\<not> exceeds (max_rrules self) (length (rrules m))"
    and "\<not> exceeds (max_exrules self) (length (exrules m))"
    and "\<not> exceeds (max_rdates self) (fcard (rdates m))"
    and "\<not> exceeds (max_exdates self) (fcard (exdates m))"
  shows "default_error_messages ''invalid_frequency'' = None \<and>
         default_error_messages ''invalid_freqency'' = Some ''Invalid frequency.'' \<and>
         fst (clean self parse v s) = Inl (KeyError ''invalid_frequency'')"
proof -
  have d: "default_error_messages ''invalid_frequency'' = None"
      "default_error_messages ''invalid_freqency'' = Some ''Invalid frequency.''"
    by (simp_all add: default_error_messages_def)
  have "error_messages self ''invalid_frequency'' = None"
    using assms(3,4) d(1) unfolding assms(2)
    by (cases supplied) (auto simp add: RecurrenceField_init_def map_add_def domIff split: option.split)
  then have fe: "frequency_error self = KeyError ''invalid_frequency''"
    by (simp add: frequency_error_def)
  from assms(5) have "disallowed self (rrules m) \<or> disallowed self (exrules m)"
    by (auto simp add: disallowed_iff)
  with assms(1,6-9) fe d show ?thesis
    by (simp add: clean_result [of parse v m])
qed

text \<open>
  The default messages, \<^verbatim>\<open>WEEKLY\<close> allowed, a \<^verbatim>\<open>MONTHLY\<close> rrule.
\<close>

theorem misspelled_key_raises_key_error_witness:
  "table_parser [(''monthly'', model_of [MONTHLY] [] {||} {||})] ''monthly''
     = Inr (model_of [MONTHLY] [] {||} {||})
   \<and> rule_of MONTHLY \<in> set (rrules (model_of [MONTHLY] [] {||} {||}))
   \<and> MONTHLY \<notin> set (frequencies
        (RecurrenceField_init (Some [WEEKLY]) True True None None None None Map.empty None))
   \<and> fst (clean
        (RecurrenceField_init (Some [WEEKLY]) True True None None None None Map.empty None)
        (table_parser [(''monthly'', model_of [MONTHLY] [] {||} {||})]) ''monthly'' [])
     = Inl (KeyError ''invalid_frequency'')"
proof -
  let ?m = "model_of [MONTHLY] [] {||} {||}"
  let ?f = "RecurrenceField_init (Some [WEEKLY]) True True None None None None Map.empty None"
  let ?p = "table_parser [(''monthly'', ?m)]"
  have p: "?p ''monthly'' = Inr ?m" by (simp add: table_parser_def)
  have i: "''invalid_frequency'' \<notin> dom (Map.empty :: string \<rightharpoonup> string)" by simp
  have u: "\<forall>d. (None :: (string \<rightharpoonup> string) option) = Some d \<longrightarrow> ''invalid_frequency'' \<notin> dom d"
    by simp
  have h: "\<exists>rule \<in> set (rrules ?m) \<union> set (exrules ?m). freq rule \<notin> set (frequencies ?f)"
    by (simp add: model_of_def rule_of_def RecurrenceField_init_def)
  have e: "\<not> exceeds (max_rrules ?f) (length (rrules ?m))"
      "\<not> exceeds (max_exrules ?f) (length (exrules ?m))"
      "\<not> exceeds (max_rdates ?f) (fcard (rdates ?m))"
      "\<not> exceeds (max_exdates ?f) (fcard (exdates ?m))"
    by (simp_all add: exceeds_def RecurrenceField_init_def)
  from misspelled_key_raises_key_error [of ?p "''monthly''" ?m ?f "Some [WEEKLY]" True True
      None None None None Map.empty None, OF p refl i u h e, of "[]"] p
  show ?thesis by (simp add: model_of_def rule_of_def RecurrenceField_init_def)
qed

text \<open>
  The claim as written fails when a collection exceeds its maximum: with
  \<^verbatim>\<open>max_rrules=0\<close> the same model fails with the limit error of rrules, a
  \<^verbatim>\<open>ValidationError\<close>.
\<close>

theorem key_error_masked_counterexample:
  "rule_of MONTHLY \<in> set (rrules (model_of [MONTHLY] [] {||} {||}))
   \<and> MONTHLY \<notin> set (frequencies
        (RecurrenceField_init (Some [WEEKLY]) True True (Some 0) None None None Map.empty None))
   \<and> fst (clean
        (RecurrenceField_init (Some [WEEKLY]) True True (Some 0) None None None Map.empty None)
        (table_parser [(''monthly'', model_of [MONTHLY] [] {||} {||})]) ''monthly'' [])
     = Inl (ValidationError ''max_rrules_exceeded''
             (Percent ''Max rules exceeded. The limit is %(limit)s'' [(''limit'', 0)]))"
  by (simp add: eval_defs)

end
